theory Spec2Isabelle
  imports Main "HOL-Library.AList" "HOL-Library.Stream" "HOL-Library.Sublist"
begin

section \<open>The platform the component runs on\<close>

text \<open>
  The chat component (\<^verbatim>\<open>ReliableP2PChatApp\<close>) is a set of event handlers over React
  state, the browser's WebRTC objects, its timers and \<^verbatim>\<open>fetch\<close>. The embedding puts all
  of it in one record, \<open>world\<close>: the React state fields under the names of the source,
  then the platform objects the handlers read and write. Every handler is a function on
  the world. An \<^verbatim>\<open>async\<close> handler is run to its end in one step; what it awaits from
  outside (the signaling server's reply) is read from a stream held by the world.

  A handler reads the variables of the render that created it. \<^verbatim>\<open>joinRoom\<close>,
  \<^verbatim>\<open>leaveRoom\<close> and \<^verbatim>\<open>sendMessage\<close> are bound by the page at every render, so what they
  read is the state at the call. \<^verbatim>\<open>pollSignalingServer\<close> is handed to \<^verbatim>\<open>setInterval\<close>
  once, by \<^verbatim>\<open>joinRoom\<close>: the \<^verbatim>\<open>peers\<close> it reads is a parameter of its embedding. The
  functional updates (\<^verbatim>\<open>setPeers(prev => ...)\<close>, \<^verbatim>\<open>setMessages(prev => ...)\<close>) act on the
  state as it is when they run.

  Embedded are \<^verbatim>\<open>addMessage\<close>, \<^verbatim>\<open>sendToSignalingServer\<close>, \<^verbatim>\<open>createPeerConnection\<close> with
  the four handlers it installs and its timeout callback, \<^verbatim>\<open>setupDataChannel\<close> with its
  three handlers, \<^verbatim>\<open>updateConnectionStatus\<close>, \<^verbatim>\<open>pollSignalingServer\<close>, \<^verbatim>\<open>joinRoom\<close>,
  \<^verbatim>\<open>leaveRoom\<close>, \<^verbatim>\<open>sendMessage\<close> and the cleanup of the effect. The room code helpers
  (\<^verbatim>\<open>generateRoomId\<close>, \<^verbatim>\<open>copyRoomId\<close>) and the page's markup are left out.
\<close>

subsection \<open>JavaScript values, JSON, strings\<close>

datatype jsvalue =
    JUndefined
  | JNull
  | JBool bool
  | JNumber int
  | JString string
  | JArray "jsvalue list"
  | JObject "(string \<times> jsvalue) list"

datatype js_error = NetworkError | SyntaxError | TypeError | InvalidStateError | OperationError

text \<open>
  What a JSON text denotes. JSON has no \<^verbatim>\<open>undefined\<close>; \<open>value_of\<close> is the JavaScript
  value that \<^verbatim>\<open>JSON.parse\<close> builds.
\<close>

datatype json =
    Null
  | Boolean bool
  | Number int
  | Text string
  | Array "json list"
  | Object "(string \<times> json) list"

fun value_of :: "json \<Rightarrow> jsvalue" where
  "value_of Null = JNull"
| "value_of (Boolean b) = JBool b"
| "value_of (Number n) = JNumber n"
| "value_of (Text s) = JString s"
| "value_of (Array js) = JArray (map value_of js)"
| "value_of (Object kvs) = JObject (map (map_prod id value_of) kvs)"

text \<open>
  The text carried by a data channel is kept by what \<^verbatim>\<open>JSON.parse\<close> makes of it:
  \<open>Json j\<close> is a JSON text that denotes \<open>j\<close>, such as \<^verbatim>\<open>JSON.stringify\<close> writes;
  \<open>NotJson s\<close> is a text \<open>s\<close> that \<^verbatim>\<open>JSON.parse\<close> rejects with a SyntaxError.
\<close>

datatype payload = NotJson string | Json json

definition JSON_stringify :: "json \<Rightarrow> payload" where
  "JSON_stringify j = Json j"

fun JSON_parse :: "payload \<Rightarrow> js_error + jsvalue" where
  "JSON_parse (NotJson s) = Inl SyntaxError"
| "JSON_parse (Json j) = Inr (value_of j)"

text \<open>
  Reading a property \<^verbatim>\<open>data.k\<close>: a TypeError on \<^verbatim>\<open>null\<close> and \<^verbatim>\<open>undefined\<close>, the
  stored value or \<^verbatim>\<open>undefined\<close> on an object. Where a key is written twice the later
  entry counts, as in \<^verbatim>\<open>JSON.parse\<close>. The handlers read only \<^verbatim>\<open>sender\<close> and
  \<^verbatim>\<open>content\<close>, which numbers, booleans, strings and arrays do not have.
\<close>

fun getProperty :: "jsvalue \<Rightarrow> string \<Rightarrow> js_error + jsvalue" where
  "getProperty JUndefined k = Inl TypeError"
| "getProperty JNull k = Inl TypeError"
| "getProperty (JObject kvs) k =
     Inr (case map_of (rev kvs) k of Some v \<Rightarrow> v | None \<Rightarrow> JUndefined)"
| "getProperty v k = Inr JUndefined"

text \<open>
  Strings are \<open>char\<close> lists, a \<open>char\<close> standing for a code unit below 256.
  \<^verbatim>\<open>String.prototype.trim\<close> removes white space and line terminators at both ends; in this
  range they are TAB, LF, VT, FF, CR, SPACE and NBSP.
\<close>

definition isWhiteSpace :: "char \<Rightarrow> bool" where
  "isWhiteSpace c = (of_char c \<in> {9, 10, 11, 12, 13, 32, 160 :: nat})"

definition trim :: "string \<Rightarrow> string" where
  "trim s = rev (dropWhile isWhiteSpace (rev (dropWhile isWhiteSpace s)))"

definition substring :: "nat \<Rightarrow> nat \<Rightarrow> string \<Rightarrow> string" where
  "substring i j s = take (j - i) (drop i s)"

fun string_of_nat :: "nat \<Rightarrow> string" where
  "string_of_nat n =
     (if n < 10 then [char_of (48 + n)]
      else string_of_nat (n div 10) @ [char_of (48 + n mod 10)])"

declare string_of_nat.simps [simp del]

text \<open>
  \<^verbatim>\<open>`${error}`\<close>: the text of an error. Engines differ in the message after the name; the
  name is kept.
\<close>

fun string_of_error :: "js_error \<Rightarrow> string" where
  "string_of_error NetworkError = ''NetworkError''"
| "string_of_error SyntaxError = ''SyntaxError''"
| "string_of_error TypeError = ''TypeError''"
| "string_of_error InvalidStateError = ''InvalidStateError''"
| "string_of_error OperationError = ''OperationError''"

text \<open>
  Each diagnostic text of the source opens with a pictograph. Pictographs lie outside the
  range of \<open>char\<close> and are written by their code points.
\<close>

definition CROSS_MARK :: string where "CROSS_MARK = ''U+274C''"
definition CHECK_MARK :: string where "CHECK_MARK = ''U+2705''"
definition ALARM_CLOCK :: string where "ALARM_CLOCK = ''U+23F0''"
definition SPEECH_BALLOON :: string where "SPEECH_BALLOON = ''U+1F4AC''"
definition INCOMING_ENVELOPE :: string where "INCOMING_ENVELOPE = ''U+1F4E8''"
definition ARROWS :: string where "ARROWS = ''U+1F504''"
definition GLOBE :: string where "GLOBE = ''U+1F30D''"
definition SILHOUETTES :: string where "SILHOUETTES = ''U+1F465''"
definition SILHOUETTE :: string where "SILHOUETTE = ''U+1F464''"
definition WAVING_HAND :: string where "WAVING_HAND = ''U+1F44B''"
definition LINK :: string where "LINK = ''U+1F517''"
definition ANTENNA :: string where "ANTENNA = ''U+1F4E1''"

subsection \<open>WebRTC objects\<close>

datatype sdp_type = offer | answer

text \<open>
  Session descriptions and connectivity candidates are opaque to the component. One that
  arrives from a remote peer may be one the browser rejects.
\<close>

datatype description = SessionDescription sdp_type nat | InvalidDescription

datatype candidate = IceCandidate nat | InvalidCandidate

datatype pc_state = New | Connecting | Connected | Disconnected | Failed | Closed

datatype ice_state =
  IceNew | IceChecking | IceConnected | IceCompleted | IceFailed | IceDisconnected | IceClosed

datatype channel_state = ChannelConnecting | Open | Closing | ChannelClosed

text \<open>The state names as the browser gives them, for the diagnostics that quote them.\<close>

fun string_of_pc_state :: "pc_state \<Rightarrow> string" where
  "string_of_pc_state New = ''new''"
| "string_of_pc_state Connecting = ''connecting''"
| "string_of_pc_state Connected = ''connected''"
| "string_of_pc_state Disconnected = ''disconnected''"
| "string_of_pc_state Failed = ''failed''"
| "string_of_pc_state Closed = ''closed''"

fun string_of_ice_state :: "ice_state \<Rightarrow> string" where
  "string_of_ice_state IceNew = ''new''"
| "string_of_ice_state IceChecking = ''checking''"
| "string_of_ice_state IceConnected = ''connected''"
| "string_of_ice_state IceCompleted = ''completed''"
| "string_of_ice_state IceFailed = ''failed''"
| "string_of_ice_state IceDisconnected = ''disconnected''"
| "string_of_ice_state IceClosed = ''closed''"

text \<open>
  \<open>remotePeer\<close> is the \<^verbatim>\<open>targetPeerId\<close> that the handlers installed on the connection by
  \<^verbatim>\<open>createPeerConnection\<close> close over; \<open>ondatachannel\<close> tells whether that handler was
  installed (the responder's side).
\<close>

record RTCPeerConnection =
  connectionState :: pc_state
  iceConnectionState :: ice_state
  localDescription :: "description option"
  remoteDescription :: "description option"
  remoteCandidates :: "candidate list"
  remotePeer :: string
  ondatachannel :: bool

text \<open>
  \<open>listener\<close> is the \<^verbatim>\<open>peerId\<close> of the handlers that \<^verbatim>\<open>setupDataChannel\<close> installed on the
  channel, if it did.
\<close>

record RTCDataChannel =
  label :: string
  readyState :: channel_state
  listener :: "string option"

subsection \<open>The signaling service\<close>

datatype signal =
    JoinRoomSignal
  | PollSignal
  | OfferSignal string description
  | AnswerSignal string description
  | IceCandidateSignal string candidate

text \<open>
  The JSON body of a reply, by the fields the component reads. \<open>ErrorResponse\<close> is a body
  with none of them, such as \<^verbatim>\<open>{ error: "Network error" }\<close>. In \<open>JoinResponse\<close> the list
  is absent when the body has no \<^verbatim>\<open>peers\<close>.
\<close>

datatype response =
    JoinResponse bool "string list option"
  | PollResponse "(string \<times> description) option" "(string \<times> description) option"
      "(string \<times> candidate) list option"
  | ErrorResponse

datatype fetched = Rejected | Resolved response

fun success :: "response \<Rightarrow> bool" where
  "success (JoinResponse ok ps) = ok"
| "success r = False"

fun peers_of :: "response \<Rightarrow> string list option" where
  "peers_of (JoinResponse ok ps) = ps"
| "peers_of r = None"

fun offer_of :: "response \<Rightarrow> (string \<times> description) option" where
  "offer_of (PollResponse off ans cands) = off"
| "offer_of r = None"

fun answer_of :: "response \<Rightarrow> (string \<times> description) option" where
  "answer_of (PollResponse off ans cands) = ans"
| "answer_of r = None"

fun iceCandidates_of :: "response \<Rightarrow> (string \<times> candidate) list option" where
  "iceCandidates_of (PollResponse off ans cands) = cands"
| "iceCandidates_of r = None"

section \<open>The component's data\<close>

text \<open>
  \<open>id_m\<close> is the pair of \<^verbatim>\<open>Date.now()\<close> and the draw of \<^verbatim>\<open>Math.random()\<close> that the source
  concatenates. \<open>sender\<close> and \<open>content\<close> are values: the inbound handler stores whatever
  the parsed payload holds there.
\<close>

record Message =
  id_m :: "nat \<times> nat"
  sender :: jsvalue
  content :: jsvalue
  timestamp :: nat
  isOwn :: bool

text \<open>
  \<open>connection\<close> and \<open>dataChannel\<close> are references: indices into the connections and
  channels of the world.
\<close>

record PeerConnection =
  id_p :: string
  username_p :: string
  connection :: nat
  dataChannel :: "nat option"
  connected :: bool

text \<open>
  A \<^verbatim>\<open>Map<string, PeerConnection>\<close> is an association list in insertion order;
  \<^verbatim>\<open>new Map(prev).set(k, v)\<close> is \<^const>\<open>AList.update\<close>, which replaces the value of a
  present key in place and appends an absent one.
\<close>

type_synonym peer_map = "(string \<times> PeerConnection) list"

text \<open>
  The first ten fields are the component's \<^verbatim>\<open>useState\<close> and \<^verbatim>\<open>useRef\<close> cells. The rest
  is the platform: the clock, the future draws of \<^verbatim>\<open>Math.random()\<close>, the future outcomes
  of \<^verbatim>\<open>fetch\<close>, the requests made so far, the console, the connection and channel objects
  with their allocation counts, what \<^verbatim>\<open>send\<close> on a channel would raise for a payload (a
  TypeError for one over the peer's maximum message size, an OperationError when the buffer
  has no room; nothing when the channel takes it), the payloads sent on channels (channel
  and payload, in order), the callbacks given to \<^verbatim>\<open>setTimeout\<close> and not cancelled (due
  time, connection, peer; the browser runs each once, when it is due) and the
  active \<^verbatim>\<open>setInterval\<close> timers (handle, period, and the \<^verbatim>\<open>peers\<close> that the scheduled
  \<^verbatim>\<open>pollSignalingServer\<close> closes over).
\<close>

record world =
  username :: string
  roomId :: string
  myPeerId :: string
  isInRoom :: bool
  peers :: peer_map
  messages :: "Message list"
  messageInput :: string
  connectionStatus :: string
  isConnecting :: bool
  pollingRef :: "nat option"
  now :: nat
  mathRandom :: "nat stream"
  replies :: "fetched stream"
  requests :: "(signal \<times> string \<times> string) list"
  console :: "(string \<times> js_error) list"
  connections :: "nat \<Rightarrow> RTCPeerConnection"
  connectionCount :: nat
  channels :: "nat \<Rightarrow> RTCDataChannel"
  channelCount :: nat
  refusal :: "nat \<Rightarrow> payload \<Rightarrow> js_error option"
  wire :: "(nat \<times> payload) list"
  timeouts :: "(nat \<times> nat \<times> string) list"
  intervals :: "(nat \<times> nat \<times> peer_map) list"
  timerCount :: nat

datatype origin = Own | Remote | System

text \<open>How the message log renders a message (the class chosen in the JSX).\<close>

definition origin_of :: "Message \<Rightarrow> origin" where
  "origin_of m =
     (if isOwn m then Own else if sender m = JString ''System'' then System else Remote)"

section \<open>The handlers\<close>

subsection \<open>The message log\<close>

text \<open>\<^verbatim>\<open>addMessage(sender, content, isOwn = false)\<close>, lines 64 to 73.\<close>

definition addMessage :: "jsvalue \<Rightarrow> jsvalue \<Rightarrow> bool \<Rightarrow> world \<Rightarrow> world" where
  "addMessage sndr cont own w =
     (let message = \<lparr>id_m = (now w, shd (mathRandom w)), sender = sndr, content = cont,
                     timestamp = now w, isOwn = own\<rparr>
      in w\<lparr>messages := messages w @ [message], mathRandom := stl (mathRandom w)\<rparr>)"

definition diagnostic :: "string \<Rightarrow> world \<Rightarrow> world" where
  "diagnostic text = addMessage (JString ''System'') (JString text) False"

definition console_error :: "string \<Rightarrow> js_error \<Rightarrow> world \<Rightarrow> world" where
  "console_error what e w = w\<lparr>console := console w @ [(what, e)]\<rparr>"

subsection \<open>Signaling requests\<close>

text \<open>
  \<^verbatim>\<open>sendToSignalingServer(data)\<close>, lines 75 to 88. The request is recorded with the room
  and peer identifiers it is sent under; the outcome of the \<^verbatim>\<open>fetch\<close> is the next one the
  environment holds. A failed exchange is caught here and answered by an error body.
\<close>

definition sendToSignalingServer :: "signal \<Rightarrow> world \<Rightarrow> response \<times> world" where
  "sendToSignalingServer data w =
     (let w1 = w\<lparr>requests := requests w @ [(data, roomId w, myPeerId w)],
                 replies := stl (replies w)\<rparr>
      in case shd (replies w) of
           Resolved body \<Rightarrow> (body, w1)
         | Rejected \<Rightarrow>
             (ErrorResponse,
              diagnostic (CROSS_MARK @ '' Signaling server error. Check your connection.'')
                (console_error ''Signaling error:'' NetworkError w1)))"

subsection \<open>Calls into WebRTC\<close>

definition new_RTCPeerConnection :: "world \<Rightarrow> nat \<times> world" where
  "new_RTCPeerConnection w =
     (connectionCount w,
      w\<lparr>connections := (connections w)(connectionCount w :=
            \<lparr>connectionState = New, iceConnectionState = IceNew, localDescription = None,
             remoteDescription = None, remoteCandidates = [], remotePeer = [],
             ondatachannel = False\<rparr>),
        connectionCount := Suc (connectionCount w)\<rparr>)"

definition createDataChannel :: "nat \<Rightarrow> string \<Rightarrow> world \<Rightarrow> nat \<times> world" where
  "createDataChannel pc name w =
     (channelCount w,
      w\<lparr>channels := (channels w)(channelCount w :=
            \<lparr>label = name, readyState = ChannelConnecting, listener = None\<rparr>),
        channelCount := Suc (channelCount w)\<rparr>)"

definition createOffer :: "nat \<Rightarrow> description" where
  "createOffer pc = SessionDescription offer pc"

definition createAnswer :: "nat \<Rightarrow> description" where
  "createAnswer pc = SessionDescription answer pc"

text \<open>
  The component sets a local description only right after it created the connection or
  accepted the remote offer, where the browser takes it.
\<close>

definition setLocalDescription :: "nat \<Rightarrow> description \<Rightarrow> world \<Rightarrow> world" where
  "setLocalDescription pc d w =
     w\<lparr>connections := (connections w)(pc := (connections w pc)\<lparr>localDescription := Some d\<rparr>)\<rparr>"

text \<open>
  What comes from a remote peer may be refused: on a closed connection with an
  InvalidStateError, on data the browser cannot use with an OperationError, and a
  candidate also on a connection that has no remote description yet, with an
  InvalidStateError. The promise then rejects and nothing changes.
\<close>

definition setRemoteDescription :: "nat \<Rightarrow> description \<Rightarrow> world \<Rightarrow> js_error + world" where
  "setRemoteDescription pc d w =
     (if connectionState (connections w pc) = Closed then Inl InvalidStateError
      else if d = InvalidDescription then Inl OperationError
      else Inr (w\<lparr>connections :=
                  (connections w)(pc := (connections w pc)\<lparr>remoteDescription := Some d\<rparr>)\<rparr>))"

definition addIceCandidate :: "nat \<Rightarrow> candidate \<Rightarrow> world \<Rightarrow> js_error + world" where
  "addIceCandidate pc c w =
     (if connectionState (connections w pc) = Closed then Inl InvalidStateError
      else if remoteDescription (connections w pc) = None then Inl InvalidStateError
      else if c = InvalidCandidate then Inl OperationError
      else Inr (w\<lparr>connections := (connections w)(pc := (connections w pc)
                  \<lparr>remoteCandidates := remoteCandidates (connections w pc) @ [c]\<rparr>)\<rparr>))"

text \<open>\<^verbatim>\<open>RTCPeerConnection.close()\<close> has no error outcome.\<close>

definition close :: "nat \<Rightarrow> world \<Rightarrow> world" where
  "close pc w =
     w\<lparr>connections := (connections w)(pc := (connections w pc)\<lparr>connectionState := Closed\<rparr>)\<rparr>"

subsection \<open>Timers\<close>

definition setTimeout :: "nat \<Rightarrow> string \<Rightarrow> nat \<Rightarrow> world \<Rightarrow> world" where
  "setTimeout pc targetPeerId delay w =
     w\<lparr>timeouts := timeouts w @ [(now w + delay, pc, targetPeerId)]\<rparr>"

definition setInterval :: "peer_map \<Rightarrow> nat \<Rightarrow> world \<Rightarrow> nat \<times> world" where
  "setInterval closure period w =
     (timerCount w,
      w\<lparr>intervals := intervals w @ [(timerCount w, period, closure)],
        timerCount := Suc (timerCount w)\<rparr>)"

definition clearInterval :: "nat \<Rightarrow> world \<Rightarrow> world" where
  "clearInterval t w = w\<lparr>intervals := filter (\<lambda>i. fst i \<noteq> t) (intervals w)\<rparr>"

subsection \<open>Data channels\<close>

text \<open>
  \<^verbatim>\<open>setupDataChannel(dataChannel, peerId)\<close>, lines 172 to 194, installs three handlers;
  \<open>onopen\<close>, \<open>onmessage\<close> and \<open>onerror\<close> are their bodies.
\<close>

definition setupDataChannel :: "nat \<Rightarrow> string \<Rightarrow> world \<Rightarrow> world" where
  "setupDataChannel dc peerId w =
     w\<lparr>channels := (channels w)(dc := (channels w dc)\<lparr>listener := Some peerId\<rparr>)\<rparr>"

definition onopen :: "nat \<Rightarrow> string \<Rightarrow> world \<Rightarrow> world" where
  "onopen dc peerId w =
     (let w1 = diagnostic (SPEECH_BALLOON @ '' Chat ready with '' @ substring 0 6 peerId) w
      in w1\<lparr>peers :=
              (case map_of (peers w1) peerId of
                 Some peer \<Rightarrow> AList.update peerId (peer\<lparr>dataChannel := Some dc\<rparr>) (peers w1)
               | None \<Rightarrow> peers w1)\<rparr>)"

text \<open>
  Lines 186 to 189. There is no \<^verbatim>\<open>try\<close> here: \<open>Inl e\<close> is the exception \<open>e\<close> leaving
  the handler, which happens before anything is written.
\<close>

definition onmessage :: "payload \<Rightarrow> world \<Rightarrow> js_error + world" where
  "onmessage event_data w =
     (case JSON_parse event_data of
        Inl e \<Rightarrow> Inl e
      | Inr data \<Rightarrow>
          (case getProperty data ''sender'' of
             Inl e \<Rightarrow> Inl e
           | Inr sndr \<Rightarrow>
               (case getProperty data ''content'' of
                  Inl e \<Rightarrow> Inl e
                | Inr cont \<Rightarrow> Inr (addMessage sndr cont False w))))"

text \<open>
  Lines 191 to 193. \<open>error_text\<close> is the text that the template makes of the event.
\<close>

definition onerror :: "string \<Rightarrow> string \<Rightarrow> world \<Rightarrow> world" where
  "onerror peerId error_text w =
     diagnostic (CROSS_MARK @ '' Chat error with '' @ substring 0 6 peerId @ '': ''
       @ error_text) w"

subsection \<open>Creating a connection\<close>

text \<open>
  \<^verbatim>\<open>updateConnectionStatus\<close>, lines 196 to 199. \<^verbatim>\<open>peers\<close> is the variable of the closure
  that the caller belongs to: \<open>closure\<close> is what that map holds when it is read.
\<close>

definition updateConnectionStatus :: "peer_map \<Rightarrow> world \<Rightarrow> world" where
  "updateConnectionStatus closure w =
     (let connectedPeers = length (filter connected (map snd closure))
      in w\<lparr>connectionStatus :=
             (if connectedPeers > 0 then
                GLOBE @ '' Connected to '' @ string_of_nat connectedPeers @ '' peer(s)''
              else ''Disconnected'')\<rparr>)"

text \<open>
  The handlers that \<^verbatim>\<open>createPeerConnection\<close> installs on the connection, lines 94 to 139.
  \<open>pc\<close> and \<open>targetPeerId\<close> are the variables they close over; the states are read
  from the connection when the handler runs.
\<close>

definition onicecandidate :: "string \<Rightarrow> candidate option \<Rightarrow> world \<Rightarrow> world" where
  "onicecandidate targetPeerId event_candidate w =
     (case event_candidate of
        None \<Rightarrow> w
      | Some c \<Rightarrow> snd (sendToSignalingServer (IceCandidateSignal targetPeerId c) w))"

definition oniceconnectionstatechange :: "nat \<Rightarrow> string \<Rightarrow> world \<Rightarrow> world" where
  "oniceconnectionstatechange pc targetPeerId w =
     (let state = iceConnectionState (connections w pc);
          w1 = diagnostic (LINK @ '' ICE connection with '' @ substring 0 6 targetPeerId
                 @ '': '' @ string_of_ice_state state) w
      in if state = IceConnected \<or> state = IceCompleted then
           diagnostic (CHECK_MARK @ '' Successfully connected to peer ''
             @ substring 0 6 targetPeerId @ ''!'') w1
         else if state = IceFailed then
           diagnostic (CROSS_MARK @ '' Connection failed with ''
             @ substring 0 6 targetPeerId @ ''. Retrying...'') w1
         else w1)"

definition onconnectionstatechange :: "nat \<Rightarrow> string \<Rightarrow> peer_map \<Rightarrow> world \<Rightarrow> world" where
  "onconnectionstatechange pc targetPeerId closure w =
     (let state = connectionState (connections w pc);
          w1 = diagnostic (ANTENNA @ '' Connection state with '' @ substring 0 6 targetPeerId
                 @ '': '' @ string_of_pc_state state) w
      in if state = Connected then
           let w2 = w1\<lparr>peers :=
                      (case map_of (peers w1) targetPeerId of
                         Some peer \<Rightarrow>
                           AList.update targetPeerId (peer\<lparr>connected := True\<rparr>) (peers w1)
                       | None \<Rightarrow> peers w1)\<rparr>;
               w3 = updateConnectionStatus closure w2
           in w3\<lparr>isConnecting := False\<rparr>
         else if state = Disconnected \<or> state = Failed then
           let w2 = w1\<lparr>peers := AList.delete targetPeerId (peers w1)\<rparr>;
               w3 = updateConnectionStatus closure w2
           in w3\<lparr>isConnecting := False\<rparr>
         else w1)"

definition ondatachannel :: "string \<Rightarrow> nat \<Rightarrow> world \<Rightarrow> world" where
  "ondatachannel targetPeerId event_channel w = setupDataChannel event_channel targetPeerId w"

text \<open>The callback given to \<^verbatim>\<open>setTimeout\<close>, lines 142 to 150.\<close>

definition connectionTimeout :: "nat \<Rightarrow> string \<Rightarrow> world \<Rightarrow> world" where
  "connectionTimeout pc targetPeerId w =
     (if connectionState (connections w pc) \<noteq> Connected then
        (diagnostic (ALARM_CLOCK @ '' Connection timeout with '' @ substring 0 6 targetPeerId
           @ ''. The peer might be offline or behind a restrictive firewall.'') w)
          \<lparr>isConnecting := False\<rparr>
      else w)"

text \<open>
  \<^verbatim>\<open>createPeerConnection(targetPeerId, isInitiator)\<close>, lines 90 to 170: the connection, its
  handlers, the timeout of 30000 ms, then the initiator's channel and offer or the
  responder's \<^verbatim>\<open>ondatachannel\<close>.
\<close>

definition createPeerConnection :: "string \<Rightarrow> bool \<Rightarrow> world \<Rightarrow> nat \<times> world" where
  "createPeerConnection targetPeerId isInitiator w =
     (let (pc, w1) = new_RTCPeerConnection w;
          w2 = w1\<lparr>connections :=
                  (connections w1)(pc := (connections w1 pc)\<lparr>remotePeer := targetPeerId\<rparr>)\<rparr>;
          w3 = setTimeout pc targetPeerId 30000 w2
      in if isInitiator then
           let (dc, w4) = createDataChannel pc ''chat'' w3;
               w5 = setupDataChannel dc targetPeerId w4;
               off = createOffer pc;
               w6 = setLocalDescription pc off w5;
               (r, w7) = sendToSignalingServer (OfferSignal targetPeerId off) w6
           in (pc, w7)
         else
           (pc, w3\<lparr>connections :=
                    (connections w3)(pc := (connections w3 pc)\<lparr>ondatachannel := True\<rparr>)\<rparr>))"

text \<open>The session object that \<^verbatim>\<open>joinRoom\<close> and \<^verbatim>\<open>pollSignalingServer\<close> store.\<close>

definition session :: "string \<Rightarrow> nat \<Rightarrow> PeerConnection" where
  "session peerId pc =
     \<lparr>id_p = peerId, username_p = ''Peer-'' @ substring 0 6 peerId, connection = pc,
      dataChannel = None, connected = False\<rparr>"

subsection \<open>Polling\<close>

text \<open>
  \<^verbatim>\<open>pollSignalingServer\<close>, lines 201 to 251. The three \<^verbatim>\<open>if\<close> blocks of its \<^verbatim>\<open>try\<close> are
  three steps; a step returns the exception that left it, if any, with the world as it was
  then. \<^verbatim>\<open>peers\<close> in the second and third block is the variable of the closure that was
  scheduled, given here as \<open>closure\<close>; \<^verbatim>\<open>setPeers\<close> in the first acts on the state.
\<close>

definition offerBlock :: "response \<Rightarrow> world \<Rightarrow> js_error option \<times> world" where
  "offerBlock response w =
     (case offer_of response of
        None \<Rightarrow> (None, w)
      | Some (frm, off) \<Rightarrow>
          let w1 = diagnostic (INCOMING_ENVELOPE @ '' Received connection offer from ''
                     @ substring 0 6 frm) w;
              w2 = w1\<lparr>isConnecting := True\<rparr>;
              (pc, w3) = createPeerConnection frm False w2
          in (case setRemoteDescription pc off w3 of
                Inl e \<Rightarrow> (Some e, w3)
              | Inr w4 \<Rightarrow>
                  let ans = createAnswer pc;
                      w5 = setLocalDescription pc ans w4;
                      (r, w6) = sendToSignalingServer (AnswerSignal frm ans) w5
                  in (None, w6\<lparr>peers := AList.update frm (session frm pc) (peers w6)\<rparr>)))"

definition answerBlock :: "peer_map \<Rightarrow> response \<Rightarrow> world \<Rightarrow> js_error option \<times> world" where
  "answerBlock closure response w =
     (case answer_of response of
        None \<Rightarrow> (None, w)
      | Some (frm, ans) \<Rightarrow>
          let w1 = diagnostic (INCOMING_ENVELOPE @ '' Received connection answer from ''
                     @ substring 0 6 frm) w
          in (case map_of closure frm of
                None \<Rightarrow> (None, w1)
              | Some peer \<Rightarrow>
                  (case setRemoteDescription (connection peer) ans w1 of
                     Inl e \<Rightarrow> (Some e, w1)
                   | Inr w2 \<Rightarrow> (None, w2))))"

fun addCandidates :: "peer_map \<Rightarrow> (string \<times> candidate) list \<Rightarrow> world \<Rightarrow> js_error option \<times> world"
  where
  "addCandidates closure [] w = (None, w)"
| "addCandidates closure ((frm, cand) # rest) w =
     (case map_of closure frm of
        None \<Rightarrow> addCandidates closure rest w
      | Some peer \<Rightarrow>
          (case addIceCandidate (connection peer) cand w of
             Inl e \<Rightarrow> (Some e, w)
           | Inr w1 \<Rightarrow> addCandidates closure rest w1))"

definition candidatesBlock :: "peer_map \<Rightarrow> response \<Rightarrow> world \<Rightarrow> js_error option \<times> world" where
  "candidatesBlock closure response w =
     (case iceCandidates_of response of
        None \<Rightarrow> (None, w)
      | Some cands \<Rightarrow> addCandidates closure cands w)"

definition pollSignalingServer :: "peer_map \<Rightarrow> world \<Rightarrow> world" where
  "pollSignalingServer closure w =
     (let (response, w1) = sendToSignalingServer PollSignal w
      in case offerBlock response w1 of
           (Some e, w2) \<Rightarrow> console_error ''Polling error:'' e w2
         | (None, w2) \<Rightarrow>
             (case answerBlock closure response w2 of
                (Some e, w3) \<Rightarrow> console_error ''Polling error:'' e w3
              | (None, w3) \<Rightarrow>
                  (case candidatesBlock closure response w3 of
                     (Some e, w4) \<Rightarrow> console_error ''Polling error:'' e w4
                   | (None, w4) \<Rightarrow> w4)))"

subsection \<open>Joining and leaving a room\<close>

text \<open>The loop over \<^verbatim>\<open>response.peers\<close>, lines 277 to 287.\<close>

fun connectPeers :: "string list \<Rightarrow> world \<Rightarrow> world" where
  "connectPeers [] w = w"
| "connectPeers (peerId # rest) w =
     (let (pc, w1) = createPeerConnection peerId True w
      in connectPeers rest (w1\<lparr>peers := AList.update peerId (session peerId pc) (peers w1)\<rparr>))"

text \<open>
  \<^verbatim>\<open>joinRoom\<close>, lines 253 to 297. The interval is given the \<^verbatim>\<open>pollSignalingServer\<close> of the
  render that \<^verbatim>\<open>joinRoom\<close> belongs to, whose \<^verbatim>\<open>peers\<close> is the state at the call. Reading
  \<^verbatim>\<open>response.peers.length\<close> of a body without \<^verbatim>\<open>peers\<close> is the TypeError that the
  \<^verbatim>\<open>catch\<close> reports.
\<close>

definition joinRoom :: "world \<Rightarrow> world" where
  "joinRoom w =
     (if trim (username w) = [] \<or> trim (roomId w) = [] then
        diagnostic (CROSS_MARK @ '' Please enter both username and room ID'') w
      else
        let w1 = w\<lparr>isConnecting := True\<rparr>;
            w2 = diagnostic (ARROWS @ '' Joining room '' @ roomId w @ ''...'') w1;
            (response, w3) = sendToSignalingServer JoinRoomSignal w2
        in if success response then
             let w4 = w3\<lparr>isInRoom := True\<rparr>;
                 w5 = diagnostic (CHECK_MARK @ '' Joined global room: '' @ roomId w) w4;
                 w6 = diagnostic (GLOBE @ '' Ready for worldwide P2P connections!'') w5;
                 (t, w7) = setInterval (peers w) 2000 w6;
                 w8 = w7\<lparr>pollingRef := Some t\<rparr>
             in (case peers_of response of
                   None \<Rightarrow>
                     (diagnostic (CROSS_MARK @ '' Failed to join room: ''
                        @ string_of_error TypeError) w8)\<lparr>isConnecting := False\<rparr>
                 | Some ps \<Rightarrow>
                     if length ps > 0 then
                       connectPeers ps
                         (diagnostic (SILHOUETTES @ '' Found '' @ string_of_nat (length ps)
                            @ '' peer(s) in room. Connecting...'') w8)
                     else
                       (diagnostic (SILHOUETTE @ '' You'' @ [CHR 0x27]
                          @ ''re the first one in this room. Waiting for others...'') w8)
                         \<lparr>isConnecting := False\<rparr>)
           else w3)"

text \<open>
  \<^verbatim>\<open>leaveRoom\<close>, lines 299 to 313. \<^verbatim>\<open>pollingRef.current\<close> is \<^verbatim>\<open>null\<close> or a timer
  handle, which is truthy. \<^verbatim>\<open>peers.forEach\<close> visits the sessions in insertion order.
\<close>

definition closeAll :: "PeerConnection list \<Rightarrow> world \<Rightarrow> world" where
  "closeAll ps w = foldl (\<lambda>a peer. close (connection peer) a) w ps"

definition leaveRoom :: "world \<Rightarrow> world" where
  "leaveRoom w =
     (let w1 = (case pollingRef w of Some t \<Rightarrow> clearInterval t w | None \<Rightarrow> w);
          w2 = closeAll (map snd (peers w)) w1;
          w3 = w2\<lparr>peers := [], isInRoom := False, connectionStatus := ''Disconnected'',
                  isConnecting := False\<rparr>
      in diagnostic (WAVING_HAND @ '' Left the room'') w3)"

text \<open>The cleanup of the effect, lines 348 to 354, run when the component goes away.\<close>

definition unmount :: "world \<Rightarrow> world" where
  "unmount w = (case pollingRef w of Some t \<Rightarrow> clearInterval t w | None \<Rightarrow> w)"

subsection \<open>Sending a message\<close>

text \<open>
  A channel is used when the session holds one and its \<^verbatim>\<open>readyState\<close> is
  \<^verbatim>\<open>"open"\<close> (line 325).
\<close>

definition usable :: "world \<Rightarrow> PeerConnection \<Rightarrow> bool" where
  "usable w peer =
     (case dataChannel peer of
        None \<Rightarrow> False
      | Some dc \<Rightarrow> readyState (channels w dc) = Open)"

text \<open>
  \<^verbatim>\<open>dataChannel.send\<close> on an open channel: the payload goes on the wire, unless the
  browser raises.
\<close>

definition send :: "nat \<Rightarrow> payload \<Rightarrow> world \<Rightarrow> js_error + world" where
  "send dc text w =
     (case refusal w dc text of
        Some e \<Rightarrow> Inl e
      | None \<Rightarrow> Inr (w\<lparr>wire := wire w @ [(dc, text)]\<rparr>))"

text \<open>
  The \<^verbatim>\<open>forEach\<close> of lines 324 to 329, with \<^verbatim>\<open>sentCount\<close>. There is no \<^verbatim>\<open>try\<close>
  around the call: an exception ends the loop and is returned with the count and the world
  as they were then.
\<close>

fun sendAll ::
  "payload \<Rightarrow> PeerConnection list \<Rightarrow> nat \<times> world \<Rightarrow> js_error option \<times> nat \<times> world"
  where
  "sendAll text [] (sentCount, w) = (None, sentCount, w)"
| "sendAll text (peer # rest) (sentCount, w) =
     (case dataChannel peer of
        None \<Rightarrow> sendAll text rest (sentCount, w)
      | Some dc \<Rightarrow>
          if readyState (channels w dc) = Open then
            (case send dc text w of
               Inl e \<Rightarrow> (Some e, sentCount, w)
             | Inr w1 \<Rightarrow> sendAll text rest (Suc sentCount, w1))
          else sendAll text rest (sentCount, w))"

definition messageData :: "world \<Rightarrow> json" where
  "messageData w =
     Object [(''sender'', Text (username w)),
             (''content'', Text (trim (messageInput w)))]"

text \<open>
  \<^verbatim>\<open>sendMessage\<close>, lines 315 to 337. The result is the exception that left the handler,
  if one did, and the world after it.
\<close>

definition sendMessage :: "world \<Rightarrow> js_error option \<times> world" where
  "sendMessage w =
     (if trim (messageInput w) = [] then (None, w)
      else
        case sendAll (JSON_stringify (messageData w)) (map snd (peers w)) (0, w) of
          (Some e, sentCount, w1) \<Rightarrow> (Some e, w1)
        | (None, sentCount, w1) \<Rightarrow>
            if sentCount > 0 then
              (None,
               (addMessage (JString (username w)) (JString (trim (messageInput w))) True w1)
                 \<lparr>messageInput := []\<rparr>)
            else
              (None, diagnostic (CROSS_MARK @ '' No connected peers to send message to'') w1))"

subsection \<open>Sequences of discovery events\<close>

text \<open>
  A peer is discovered by the reply to a join request or by an offer in the reply to a
  poll. \<open>Poll closure\<close> is a run of \<^const>\<open>pollSignalingServer\<close> scheduled with the
  given \<^verbatim>\<open>peers\<close> in its closure.
\<close>

datatype discovery = Join | Poll peer_map

fun discover :: "world \<Rightarrow> discovery \<Rightarrow> world" where
  "discover w Join = joinRoom w"
| "discover w (Poll closure) = pollSignalingServer closure w"

definition discoveries :: "discovery list \<Rightarrow> world \<Rightarrow> world" where
  "discoveries es w = foldl discover w es"

subsection \<open>Events\<close>

text \<open>
  Everything that starts one of the embedded handlers: the three buttons, a tick of the
  interval, a timeout coming due, the notifications of a connection and of a channel, and
  the component going away. Each carries the variables of the closure that runs.
  \<open>handle\<close> is the world after the handler; an exception that leaves a handler changes
  nothing more.
\<close>

datatype event =
    JoinClicked
  | LeaveClicked
  | SendClicked
  | IntervalTick peer_map
  | TimeoutDue nat string
  | CandidateFound string "candidate option"
  | IceStateChanged nat string
  | StateChanged nat string peer_map
  | ChannelArrived string nat
  | ChannelOpened nat string
  | MessageArrived payload
  | ChannelFailed string string
  | Unmounted

fun handle :: "event \<Rightarrow> world \<Rightarrow> world" where
  "handle JoinClicked w = joinRoom w"
| "handle LeaveClicked w = leaveRoom w"
| "handle SendClicked w = snd (sendMessage w)"
| "handle (IntervalTick closure) w = pollSignalingServer closure w"
| "handle (TimeoutDue pc targetPeerId) w = connectionTimeout pc targetPeerId w"
| "handle (CandidateFound targetPeerId c) w = onicecandidate targetPeerId c w"
| "handle (IceStateChanged pc targetPeerId) w = oniceconnectionstatechange pc targetPeerId w"
| "handle (StateChanged pc targetPeerId closure) w =
     onconnectionstatechange pc targetPeerId closure w"
| "handle (ChannelArrived targetPeerId dc) w = ondatachannel targetPeerId dc w"
| "handle (ChannelOpened dc peerId) w = onopen dc peerId w"
| "handle (MessageArrived event_data) w =
     (case onmessage event_data w of Inl e \<Rightarrow> w | Inr w1 \<Rightarrow> w1)"
| "handle (ChannelFailed peerId error_text) w = onerror peerId error_text w"
| "handle Unmounted w = unmount w"

definition run :: "event list \<Rightarrow> world \<Rightarrow> world" where
  "run es w = foldl (\<lambda>a e. handle e a) w es"

section \<open>States used in the statements\<close>

text \<open>
  The sessions that \<^verbatim>\<open>sendMessage\<close> transmits to (the test of line 325), and the number
  of connected peers as the page computes it (line 430).
\<close>

definition usableSessions :: "world \<Rightarrow> PeerConnection list" where
  "usableSessions w = filter (usable w) (map snd (peers w))"

definition connectedPeers :: "world \<Rightarrow> nat" where
  "connectedPeers w = length (filter connected (map snd (peers w)))"



definition polled :: "world \<Rightarrow> world" where
  "polled w = w\<lparr>requests := requests w @ [(PollSignal, roomId w, myPeerId w)],
                 replies := stl (replies w)\<rparr>"

text \<open>
  The component at its first render, with the initial values of its \<^verbatim>\<open>useState\<close> calls
  and the generated \<^verbatim>\<open>myPeerId\<close>, on a platform where nothing has been allocated, the
  clock stands at 0 and no request gets through.
\<close>

definition initial :: "string \<Rightarrow> world" where
  "initial peerId =
     \<lparr>username = [], roomId = [], myPeerId = peerId, isInRoom = False, peers = [],
      messages = [], messageInput = [], connectionStatus = ''Disconnected'',
      isConnecting = False, pollingRef = None,
      now = 0, mathRandom = sconst 0, replies = sconst Rejected, requests = [], console = [],
      connections = (\<lambda>n. \<lparr>connectionState = Closed, iceConnectionState = IceClosed,
        localDescription = None, remoteDescription = None, remoteCandidates = [],
        remotePeer = [], ondatachannel = False\<rparr>),
      connectionCount = 0,
      channels = (\<lambda>n. \<lparr>label = [], readyState = ChannelClosed, listener = None\<rparr>),
      channelCount = 0, refusal = (\<lambda>dc text. None), wire = [], timeouts = [],
      intervals = [], timerCount = 0\<rparr>"

text \<open>
  Example states. \<open>alice\<close> has filled in the form; \<open>joining\<close> is about to be told that
  the room holds \<^verbatim>\<open>p1\<close>, and \<open>waiting\<close> is the state after that join; \<open>rejected\<close> is
  about to be refused by the server. \<open>chatting\<close> is a room with two sessions, \<^verbatim>\<open>p1\<close>
  connected with an open channel and \<^verbatim>\<open>p2\<close> failed, and a typed message. The others are
  variations. Drafts: two spaces, empty, a user name of spaces. Channels that raise: in
  \<open>pasting\<close> the message is over what \<^verbatim>\<open>p1\<close> accepts; in \<open>congested\<close> both peers have
  an open channel and the buffer of \<^verbatim>\<open>p2\<close> is full. Timeouts: \<open>expired\<close> is \<open>waiting\<close>
  after the timeout of \<^verbatim>\<open>p1\<close> ran; in \<open>linked\<close> the connection of \<^verbatim>\<open>p1\<close> was reported
  connected, in \<open>unlinked\<close> it was then reported disconnected; \<open>departed\<close> is \<open>waiting\<close>
  after leaving the room. Poll replies about to arrive: strangers only, a stray candidate,
  strangers mixed with \<^verbatim>\<open>p1\<close>, a candidate of \<^verbatim>\<open>p1\<close> after its session was dropped,
  an offer of a newcomer and a second offer of \<^verbatim>\<open>p1\<close>.
\<close>

definition alice :: world where
  "alice = (initial ''k3j9x0q2'')\<lparr>username := ''alice'', roomId := ''ABC123''\<rparr>"

definition joining :: world where
  "joining = alice\<lparr>replies := Resolved (JoinResponse True (Some [''p1''])) ##
                sconst (Resolved ErrorResponse)\<rparr>"

definition waiting :: world where
  "waiting = joinRoom joining"

definition rejected :: world where
  "rejected = alice\<lparr>replies := Resolved (JoinResponse False (Some [])) ## sconst Rejected\<rparr>"

definition chatting :: world where
  "chatting = alice
     \<lparr>isInRoom := True,
      peers := [(''p1'', (session ''p1'' 0)\<lparr>dataChannel := Some 0, connected := True\<rparr>),
                (''p2'', session ''p2'' 1)],
      messageInput := '' hi '',
      connections := (connections alice)
        (0 := \<lparr>connectionState = Connected, iceConnectionState = IceConnected,
               localDescription = Some (SessionDescription offer 0),
               remoteDescription = Some (SessionDescription answer 7), remoteCandidates = [],
               remotePeer = ''p1'', ondatachannel = False\<rparr>,
         1 := \<lparr>connectionState = Failed, iceConnectionState = IceFailed,
               localDescription = Some (SessionDescription offer 1),
               remoteDescription = None, remoteCandidates = [],
               remotePeer = ''p2'', ondatachannel = False\<rparr>),
      connectionCount := 2,
      channels := (channels alice)
        (0 := \<lparr>label = ''chat'', readyState = Open, listener = Some ''p1''\<rparr>,
         1 := \<lparr>label = ''chat'', readyState = ChannelConnecting, listener = Some ''p2''\<rparr>),
      channelCount := 2\<rparr>"

definition typing_blank :: world where
  "typing_blank = chatting\<lparr>messageInput := ''  ''\<rparr>"

definition empty_draft :: world where
  "empty_draft = chatting\<lparr>messageInput := []\<rparr>"

definition nameless :: world where
  "nameless = (initial ''k3j9x0q2'')\<lparr>username := ''   '', roomId := ''ABC123''\<rparr>"

definition expired :: world where
  "expired = connectionTimeout 0 ''p1'' (waiting\<lparr>now := 30000\<rparr>)"

definition pasting :: world where
  "pasting = chatting\<lparr>refusal := (\<lambda>dc text. if dc = 0 then Some TypeError else None)\<rparr>"

definition congested :: world where
  "congested = chatting
     \<lparr>peers := [(''p1'', (session ''p1'' 0)\<lparr>dataChannel := Some 0, connected := True\<rparr>),
                (''p2'', (session ''p2'' 1)\<lparr>dataChannel := Some 1, connected := True\<rparr>)],
      connections := (connections chatting)
        (1 := (connections chatting 1)\<lparr>connectionState := Connected,
                 iceConnectionState := IceConnected,
                 remoteDescription := Some (SessionDescription answer 8)\<rparr>),
      channels := (channels chatting)
        (1 := \<lparr>label = ''chat'', readyState = Open, listener = Some ''p2''\<rparr>),
      refusal := (\<lambda>dc text. if dc = 1 then Some OperationError else None)\<rparr>"

definition linked :: world where
  "linked = onconnectionstatechange 0 ''p1'' []
     (waiting\<lparr>connections :=
        (connections waiting)(0 := (connections waiting 0)\<lparr>connectionState := Connected\<rparr>)\<rparr>)"

definition unlinked :: world where
  "unlinked = onconnectionstatechange 0 ''p1'' []
     (linked\<lparr>connections :=
        (connections linked)(0 := (connections linked 0)\<lparr>connectionState := Disconnected\<rparr>)\<rparr>)"

definition departed :: world where
  "departed = leaveRoom waiting"





definition newcomer :: world where
  "newcomer = chatting\<lparr>replies :=
     Resolved (PollResponse (Some (''p3'', SessionDescription offer 5)) None None) ##
     sconst (Resolved ErrorResponse)\<rparr>"

definition reoffered :: world where
  "reoffered = waiting\<lparr>replies :=
     Resolved (PollResponse (Some (''p1'', SessionDescription offer 9)) None None) ##
     sconst (Resolved ErrorResponse)\<rparr>"

section \<open>What the building blocks change\<close>

lemma addMessage_fields [simp]:
  "messages (addMessage s c b w) = messages w @ [\<lparr>id_m = (now w, shd (mathRandom w)), sender = s, content = c, timestamp = now w, isOwn = b\<rparr>]"
  "peers (addMessage s c b w) = peers w"
  "wire (addMessage s c b w) = wire w"
  "username (addMessage s c b w) = username w"
  "roomId (addMessage s c b w) = roomId w"
  "myPeerId (addMessage s c b w) = myPeerId w"
  "messageInput (addMessage s c b w) = messageInput w"
  "connections (addMessage s c b w) = connections w"
  "channels (addMessage s c b w) = channels w"
  "intervals (addMessage s c b w) = intervals w"
  "timeouts (addMessage s c b w) = timeouts w"
  "requests (addMessage s c b w) = requests w"
  "console (addMessage s c b w) = console w"
  "isInRoom (addMessage s c b w) = isInRoom w"
  "isConnecting (addMessage s c b w) = isConnecting w"
  "connectionStatus (addMessage s c b w) = connectionStatus w"
  "pollingRef (addMessage s c b w) = pollingRef w"
  "connectionCount (addMessage s c b w) = connectionCount w"
  "channelCount (addMessage s c b w) = channelCount w"
  "timerCount (addMessage s c b w) = timerCount w"
  "now (addMessage s c b w) = now w"
  "replies (addMessage s c b w) = replies w"
  "mathRandom (addMessage s c b w) = stl (mathRandom w)"
  by (simp_all add: addMessage_def Let_def)

lemma diagnostic_fields [simp]:
  "messages (diagnostic t w) = messages w @ [\<lparr>id_m = (now w, shd (mathRandom w)), sender = JString ''System'', content = JString t, timestamp = now w, isOwn = False\<rparr>]"
  "peers (diagnostic t w) = peers w"
  "wire (diagnostic t w) = wire w"
  "username (diagnostic t w) = username w"
  "roomId (diagnostic t w) = roomId w"
  "myPeerId (diagnostic t w) = myPeerId w"
  "messageInput (diagnostic t w) = messageInput w"
  "connections (diagnostic t w) = connections w"
  "channels (diagnostic t w) = channels w"
  "intervals (diagnostic t w) = intervals w"
  "timeouts (diagnostic t w) = timeouts w"
  "requests (diagnostic t w) = requests w"
  "console (diagnostic t w) = console w"
  "isInRoom (diagnostic t w) = isInRoom w"
  "isConnecting (diagnostic t w) = isConnecting w"
  "connectionStatus (diagnostic t w) = connectionStatus w"
  "pollingRef (diagnostic t w) = pollingRef w"
  "connectionCount (diagnostic t w) = connectionCount w"
  "channelCount (diagnostic t w) = channelCount w"
  "timerCount (diagnostic t w) = timerCount w"
  "now (diagnostic t w) = now w"
  "replies (diagnostic t w) = replies w"
  "mathRandom (diagnostic t w) = stl (mathRandom w)"
  by (simp_all add: diagnostic_def)

lemma console_error_fields [simp]:
  "messages (console_error s e w) = messages w"
  "peers (console_error s e w) = peers w"
  "wire (console_error s e w) = wire w"
  "connections (console_error s e w) = connections w"
  "channels (console_error s e w) = channels w"
  "intervals (console_error s e w) = intervals w"
  "timeouts (console_error s e w) = timeouts w"
  "requests (console_error s e w) = requests w"
  "console (console_error s e w) = console w @ [(s, e)]"
  "isInRoom (console_error s e w) = isInRoom w"
  "isConnecting (console_error s e w) = isConnecting w"
  "pollingRef (console_error s e w) = pollingRef w"
  "connectionCount (console_error s e w) = connectionCount w"
  "channelCount (console_error s e w) = channelCount w"
  "timerCount (console_error s e w) = timerCount w"
  "now (console_error s e w) = now w"
  "replies (console_error s e w) = replies w"
  "mathRandom (console_error s e w) = mathRandom w"
  "roomId (console_error s e w) = roomId w"
  "myPeerId (console_error s e w) = myPeerId w"
  "username (console_error s e w) = username w"
  by (simp_all add: console_error_def)

lemma sendToSignalingServer_fields [simp]:
  "fst (sendToSignalingServer d w) = (case shd (replies w) of Resolved body \<Rightarrow> body | Rejected \<Rightarrow> ErrorResponse)"
  "peers (snd (sendToSignalingServer d w)) = peers w"
  "wire (snd (sendToSignalingServer d w)) = wire w"
  "connections (snd (sendToSignalingServer d w)) = connections w"
  "channels (snd (sendToSignalingServer d w)) = channels w"
  "intervals (snd (sendToSignalingServer d w)) = intervals w"
  "timeouts (snd (sendToSignalingServer d w)) = timeouts w"
  "requests (snd (sendToSignalingServer d w)) = requests w @ [(d, roomId w, myPeerId w)]"
  "isInRoom (snd (sendToSignalingServer d w)) = isInRoom w"
  "isConnecting (snd (sendToSignalingServer d w)) = isConnecting w"
  "pollingRef (snd (sendToSignalingServer d w)) = pollingRef w"
  "connectionCount (snd (sendToSignalingServer d w)) = connectionCount w"
  "channelCount (snd (sendToSignalingServer d w)) = channelCount w"
  "timerCount (snd (sendToSignalingServer d w)) = timerCount w"
  "now (snd (sendToSignalingServer d w)) = now w"
  "replies (snd (sendToSignalingServer d w)) = stl (replies w)"
  "roomId (snd (sendToSignalingServer d w)) = roomId w"
  "myPeerId (snd (sendToSignalingServer d w)) = myPeerId w"
  "username (snd (sendToSignalingServer d w)) = username w"
  by (simp_all add: sendToSignalingServer_def Let_def split: fetched.splits)

lemma sendToSignalingServer_log:
  "messages (snd (sendToSignalingServer d w)) =
     (case shd (replies w) of
        Resolved body \<Rightarrow> messages w
      | Rejected \<Rightarrow> messages w @ [\<lparr>id_m = (now w, shd (mathRandom w)), sender = JString ''System'',
          content = JString (CROSS_MARK @ '' Signaling server error. Check your connection.''),
          timestamp = now w, isOwn = False\<rparr>])"
  "console (snd (sendToSignalingServer d w)) =
     (case shd (replies w) of
        Resolved body \<Rightarrow> console w
      | Rejected \<Rightarrow> console w @ [(''Signaling error:'', NetworkError)])"
  "mathRandom (snd (sendToSignalingServer d w)) =
     (case shd (replies w) of
        Resolved body \<Rightarrow> mathRandom w
      | Rejected \<Rightarrow> stl (mathRandom w))"
  by (simp_all add: sendToSignalingServer_def Let_def split: fetched.splits)

lemma setInterval_fields [simp]:
  "fst (setInterval c p w) = timerCount w"
  "peers (snd (setInterval c p w)) = peers w"
  "intervals (snd (setInterval c p w)) = intervals w @ [(timerCount w, p, c)]"
  "messages (snd (setInterval c p w)) = messages w"
  "isInRoom (snd (setInterval c p w)) = isInRoom w"
  "isConnecting (snd (setInterval c p w)) = isConnecting w"
  "requests (snd (setInterval c p w)) = requests w"
  "connectionCount (snd (setInterval c p w)) = connectionCount w"
  "connections (snd (setInterval c p w)) = connections w"
  "timeouts (snd (setInterval c p w)) = timeouts w"
  "now (snd (setInterval c p w)) = now w"
  "pollingRef (snd (setInterval c p w)) = pollingRef w"
  "timerCount (snd (setInterval c p w)) = Suc (timerCount w)"
  "roomId (snd (setInterval c p w)) = roomId w"
  "myPeerId (snd (setInterval c p w)) = myPeerId w"
  "replies (snd (setInterval c p w)) = replies w"
  "mathRandom (snd (setInterval c p w)) = mathRandom w"
  "console (snd (setInterval c p w)) = console w"
  "wire (snd (setInterval c p w)) = wire w"
  by (simp_all add: setInterval_def)

lemma clearInterval_fields [simp]:
  "messages (clearInterval t w) = messages w"
  "peers (clearInterval t w) = peers w"
  "timeouts (clearInterval t w) = timeouts w"
  "username (clearInterval t w) = username w"
  "roomId (clearInterval t w) = roomId w"
  "myPeerId (clearInterval t w) = myPeerId w"
  "now (clearInterval t w) = now w"
  "mathRandom (clearInterval t w) = mathRandom w"
  "wire (clearInterval t w) = wire w"
  "connections (clearInterval t w) = connections w"
  "intervals (clearInterval t w) = filter (\<lambda>i. fst i \<noteq> t) (intervals w)"
  by (simp_all add: clearInterval_def)

lemma close_fields [simp]:
  "messages (close c w) = messages w"
  "peers (close c w) = peers w"
  "intervals (close c w) = intervals w"
  "timeouts (close c w) = timeouts w"
  "username (close c w) = username w"
  "roomId (close c w) = roomId w"
  "myPeerId (close c w) = myPeerId w"
  "now (close c w) = now w"
  "mathRandom (close c w) = mathRandom w"
  "wire (close c w) = wire w"
  "connectionState (connections (close c w) k) =
     (if k = c then Closed else connectionState (connections w k))"
  by (simp_all add: close_def)

lemma closeAll_snoc: "closeAll (ps @ [p]) w = close (connection p) (closeAll ps w)"
  by (simp add: closeAll_def)

lemma closeAll_fields [simp]:
  "messages (closeAll ps w) = messages w"
  "peers (closeAll ps w) = peers w"
  "intervals (closeAll ps w) = intervals w"
  "timeouts (closeAll ps w) = timeouts w"
  "username (closeAll ps w) = username w"
  "roomId (closeAll ps w) = roomId w"
  "myPeerId (closeAll ps w) = myPeerId w"
  "now (closeAll ps w) = now w"
  "mathRandom (closeAll ps w) = mathRandom w"
  "wire (closeAll ps w) = wire w"
  by (induction ps rule: rev_induct) (simp_all add: closeAll_snoc, simp_all add: closeAll_def)

lemma closeAll_state:
  "connectionState (connections (closeAll ps w) k) =
     (if k \<in> connection ` set ps then Closed else connectionState (connections w k))"
  by (induction ps rule: rev_induct) (simp add: closeAll_def, simp add: closeAll_snoc)

lemma createPeerConnection_fields [simp]:
  "fst (createPeerConnection t i w) = connectionCount w"
  "peers (snd (createPeerConnection t i w)) = peers w"
  "wire (snd (createPeerConnection t i w)) = wire w"
  "intervals (snd (createPeerConnection t i w)) = intervals w"
  "timeouts (snd (createPeerConnection t i w)) = timeouts w @ [(now w + 30000, connectionCount w, t)]"
  "isInRoom (snd (createPeerConnection t i w)) = isInRoom w"
  "isConnecting (snd (createPeerConnection t i w)) = isConnecting w"
  "pollingRef (snd (createPeerConnection t i w)) = pollingRef w"
  "connectionCount (snd (createPeerConnection t i w)) = Suc (connectionCount w)"
  "timerCount (snd (createPeerConnection t i w)) = timerCount w"
  "now (snd (createPeerConnection t i w)) = now w"
  "roomId (snd (createPeerConnection t i w)) = roomId w"
  "myPeerId (snd (createPeerConnection t i w)) = myPeerId w"
  "username (snd (createPeerConnection t i w)) = username w"
  "connectionState (connections (snd (createPeerConnection t i w)) c) =
     (if c = connectionCount w then New else connectionState (connections w c))"
  by (simp_all add: createPeerConnection_def Let_def split_def new_RTCPeerConnection_def
        setTimeout_def createDataChannel_def setupDataChannel_def setLocalDescription_def)

lemma leaveRoom_fields:
  "messages (leaveRoom w) = messages w @ [\<lparr>id_m = (now w, shd (mathRandom w)),
     sender = JString ''System'', content = JString (WAVING_HAND @ '' Left the room''),
     timestamp = now w, isOwn = False\<rparr>]"
  "username (leaveRoom w) = username w"
  "roomId (leaveRoom w) = roomId w"
  "myPeerId (leaveRoom w) = myPeerId w"
  "peers (leaveRoom w) = []"
  "isInRoom (leaveRoom w) = False"
  "isConnecting (leaveRoom w) = False"
  "connectionStatus (leaveRoom w) = ''Disconnected''"
  "timeouts (leaveRoom w) = timeouts w"
  "wire (leaveRoom w) = wire w"
  "intervals (leaveRoom w) = filter (\<lambda>i. Some (fst i) \<noteq> pollingRef w) (intervals w)"
  "connectionState (connections (leaveRoom w) k) =
     (if k \<in> connection ` snd ` set (peers w) then Closed
      else connectionState (connections w k))"
  by (simp_all add: leaveRoom_def Let_def closeAll_state split: option.splits)

subsection \<open>The example states\<close>

lemma alice_fields [simp]:
  "username alice = ''alice''" "roomId alice = ''ABC123''" "myPeerId alice = ''k3j9x0q2''"
  "peers alice = []" "messages alice = []" "messageInput alice = []"
  "isInRoom alice = False" "isConnecting alice = False" "pollingRef alice = None"
  "now alice = 0" "mathRandom alice = sconst 0" "replies alice = sconst Rejected"
  "requests alice = []" "console alice = []" "connectionCount alice = 0"
  "channelCount alice = 0" "wire alice = []" "timeouts alice = []" "intervals alice = []"
  "timerCount alice = 0"
  "connectionState (connections alice k) = Closed"
  by (simp_all add: alice_def initial_def)

lemma trim_alice [simp]: "trim ''alice'' = ''alice''" "trim ''ABC123'' = ''ABC123''"
  by (simp_all add: trim_def isWhiteSpace_def)

lemma trim_hi [simp]: "trim '' hi '' = ''hi''" "trim ''  '' = []"
  by (simp_all add: trim_def isWhiteSpace_def)

lemma chatting_fields [simp]:
  "username chatting = ''alice''" "roomId chatting = ''ABC123''"
  "myPeerId chatting = ''k3j9x0q2''"
  "peers chatting = [(''p1'', (session ''p1'' 0)\<lparr>dataChannel := Some 0, connected := True\<rparr>),
                     (''p2'', session ''p2'' 1)]"
  "messages chatting = []" "messageInput chatting = '' hi ''"
  "now chatting = 0" "mathRandom chatting = sconst 0" "replies chatting = sconst Rejected"
  "requests chatting = []" "console chatting = []" "connectionCount chatting = 2"
  "wire chatting = []" "timeouts chatting = []"
  "connectionState (connections chatting 0) = Connected"
  "connectionState (connections chatting (Suc 0)) = Failed"
  "readyState (channels chatting 0) = Open"
  by (simp_all add: chatting_def)

lemma usableSessions_chatting [simp]:
  "usableSessions chatting = [(session ''p1'' 0)\<lparr>dataChannel := Some 0, connected := True\<rparr>]"
  by (simp add: usableSessions_def usable_def session_def)

section \<open>Sending a message\<close>

lemma usable_wire [simp]: "usable (w\<lparr>wire := x\<rparr>) = usable w"
  by (rule ext) (simp add: usable_def split: option.splits)

lemma chatting_refusal [simp]:
  "refusal chatting dc text = None" "channels pasting = channels chatting"
  "peers pasting = peers chatting" "messageInput pasting = messageInput chatting"
  "refusal pasting 0 text = Some TypeError"
  by (simp_all add: chatting_def alice_def initial_def pasting_def)

text \<open>
  While no channel raises, the loop sends on the channel of each usable session, in
  order, and counts them. Sending does not change which sessions are usable.
\<close>

lemma sendAll_eq:
  assumes "\<forall>peer \<in> set (filter (usable w) ps). refusal w (the (dataChannel peer)) t = None"
  shows "sendAll t ps (n, w) =
     (None, n + length (filter (usable w) ps),
      w\<lparr>wire := wire w @ map (\<lambda>p. (the (dataChannel p), t)) (filter (usable w) ps)\<rparr>)"
  using assms
proof (induction ps arbitrary: n w)
  case Nil
  then show ?case by simp
next
  case (Cons p ps)
  show ?case
  proof (cases "usable w p")
    case False
    then have "sendAll t (p # ps) (n, w) = sendAll t ps (n, w)"
      by (simp add: usable_def split: option.splits)
    with False Cons show ?thesis by simp
  next
    case True
    then obtain dc where dc: "dataChannel p = Some dc" "readyState (channels w dc) = Open"
      by (auto simp add: usable_def split: option.splits)
    from True Cons.prems dc have ok: "refusal w dc t = None" by simp
    let ?w1 = "w\<lparr>wire := wire w @ [(dc, t)]\<rparr>"
    have step: "sendAll t (p # ps) (n, w) = sendAll t ps (Suc n, ?w1)"
      using dc ok by (simp add: send_def)
    have "\<forall>peer \<in> set (filter (usable ?w1) ps). refusal ?w1 (the (dataChannel peer)) t = None"
      using Cons.prems by simp
    from Cons.IH [OF this] True dc show ?thesis
      unfolding step by simp
  qed
qed

lemma sendAll_frame [simp]:
  "timeouts (snd (snd (sendAll t ps (n, w)))) = timeouts w"
  "messageInput (snd (snd (sendAll t ps (n, w)))) = messageInput w"
  "messages (snd (snd (sendAll t ps (n, w)))) = messages w"
  by (induction t ps "(n, w)" arbitrary: n w rule: sendAll.induct)
     (simp_all add: send_def split: option.splits)

lemma sendMessage_blank: "trim (messageInput w) = [] \<Longrightarrow> sendMessage w = (None, w)"
  by (simp add: sendMessage_def)

lemma sendMessage_eq:
  assumes "trim (messageInput w) \<noteq> []"
    and "\<forall>peer \<in> set (usableSessions w).
           refusal w (the (dataChannel peer)) (JSON_stringify (messageData w)) = None"
  shows "sendMessage w =
     (None,
      if usableSessions w = [] then
        diagnostic (CROSS_MARK @ '' No connected peers to send message to'') w
      else (addMessage (JString (username w)) (JString (trim (messageInput w))) True
             (w\<lparr>wire := wire w @ map (\<lambda>p. (the (dataChannel p), JSON_stringify (messageData w)))
                (usableSessions w)\<rparr>))\<lparr>messageInput := []\<rparr>)"
proof -
  let ?t = "JSON_stringify (messageData w)"
  have "\<forall>peer \<in> set (filter (usable w) (map snd (peers w))).
          refusal w (the (dataChannel peer)) ?t = None"
    using assms(2) unfolding usableSessions_def by simp
  from sendAll_eq [OF this, of 0]
  have run: "sendAll ?t (map snd (peers w)) (0, w) =
      (None, length (usableSessions w),
       w\<lparr>wire := wire w @ map (\<lambda>p. (the (dataChannel p), ?t)) (usableSessions w)\<rparr>)"
    unfolding usableSessions_def by (simp only: add_0)
  show ?thesis
  proof (cases "usableSessions w = []")
    case True
    with assms run show ?thesis by (simp add: sendMessage_def)
  next
    case False
    with assms run show ?thesis by (simp add: sendMessage_def)
  qed
qed

text \<open>
  C1. For every call of \<^verbatim>\<open>sendMessage\<close> with a text that is not empty after trimming, in
  which no channel raises on the payload: the handler returns; the serialized
  \<^verbatim>\<open>{sender, content}\<close> is transmitted once on the channel of each session with a usable
  open channel and on no other; if there is no such session nothing is transmitted and
  the one message appended is a System diagnostic; if there is one, the one message
  appended is the local echo, with origin Own and the trimmed text.
\<close>

theorem sendMessage_fanout:
  assumes "trim (messageInput w) \<noteq> []"
    and "\<forall>peer \<in> set (usableSessions w).
           refusal w (the (dataChannel peer))
             (JSON_stringify (Object [(''sender'', Text (username w)),
                (''content'', Text (trim (messageInput w)))])) = None"
  shows "fst (sendMessage w) = None
         \<and> wire (snd (sendMessage w)) =
           wire w @ map (\<lambda>peer. (the (dataChannel peer),
                          JSON_stringify (Object [(''sender'', Text (username w)),
                            (''content'', Text (trim (messageInput w)))])))
                      (usableSessions w)
         \<and> messages (snd (sendMessage w)) =
             messages w @
               [if usableSessions w = [] then
                  \<lparr>id_m = (now w, shd (mathRandom w)), sender = JString ''System'',
                   content = JString (CROSS_MARK @ '' No connected peers to send message to''),
                   timestamp = now w, isOwn = False\<rparr>
                else
                  \<lparr>id_m = (now w, shd (mathRandom w)), sender = JString (username w),
                   content = JString (trim (messageInput w)),
                   timestamp = now w, isOwn = True\<rparr>]
         \<and> origin_of (last (messages (snd (sendMessage w)))) =
             (if usableSessions w = [] then System else Own)"
proof -
  have "\<forall>peer \<in> set (usableSessions w).
           refusal w (the (dataChannel peer)) (JSON_stringify (messageData w)) = None"
    using assms(2) by (simp add: messageData_def)
  from sendMessage_eq [OF assms(1) this] show ?thesis
    by (simp add: messageData_def origin_of_def)
qed

theorem sendMessage_fanout_witness:
  "trim (messageInput chatting) \<noteq> []
   \<and> fst (sendMessage chatting) = None
   \<and> wire (snd (sendMessage chatting)) =
       [(0, JSON_stringify (Object [(''sender'', Text ''alice''), (''content'', Text ''hi'')]))]
   \<and> messages (snd (sendMessage chatting)) =
       [\<lparr>id_m = (0, 0), sender = JString ''alice'', content = JString ''hi'',
         timestamp = 0, isOwn = True\<rparr>]"
  using sendMessage_fanout [of chatting] by (simp add: session_def)

text \<open>
  A text of two spaces is not empty, and \<^verbatim>\<open>p1\<close> has an open channel; nothing is echoed
  and nothing is transmitted. A message over what \<^verbatim>\<open>p1\<close> accepts: \<^verbatim>\<open>send\<close> raises on
  the open channel, the exception leaves \<^verbatim>\<open>sendMessage\<close>, and again nothing is echoed or
  transmitted.
\<close>

theorem sendMessage_blank_counterexample:
  "messageInput typing_blank \<noteq> []
   \<and> usableSessions typing_blank \<noteq> []
   \<and> sendMessage typing_blank = (None, typing_blank)
   \<and> trim (messageInput pasting) \<noteq> []
   \<and> usableSessions pasting \<noteq> []
   \<and> sendMessage pasting = (Some TypeError, pasting)"
proof -
  have "usableSessions typing_blank = usableSessions chatting"
    by (simp add: usableSessions_def usable_def typing_blank_def split: option.splits)
  moreover have "sendMessage typing_blank = (None, typing_blank)"
    by (rule sendMessage_blank) (simp add: typing_blank_def)
  moreover have "usableSessions pasting = usableSessions chatting"
    by (simp add: usableSessions_def usable_def session_def)
  moreover have "sendMessage pasting = (Some TypeError, pasting)"
    by (simp add: sendMessage_def session_def send_def)
  ultimately show ?thesis by (simp add: typing_blank_def)
qed

text \<open>
  When no channel raises, the input is emptied exactly when the text is not blank and a
  session is usable, which is exactly when something is transmitted.
\<close>

lemma sendMessage_input:
  assumes "\<forall>peer \<in> set (usableSessions w).
           refusal w (the (dataChannel peer)) (JSON_stringify (messageData w)) = None"
  shows "messageInput (snd (sendMessage w)) =
           (if trim (messageInput w) \<noteq> [] \<and> usableSessions w \<noteq> [] then []
            else messageInput w)"
    and "length (wire (snd (sendMessage w))) =
           length (wire w) +
             (if trim (messageInput w) \<noteq> [] then length (usableSessions w) else 0)"
proof -
  show "messageInput (snd (sendMessage w)) =
           (if trim (messageInput w) \<noteq> [] \<and> usableSessions w \<noteq> [] then []
            else messageInput w)"
  proof (cases "trim (messageInput w) = []")
    case True
    then show ?thesis by (simp add: sendMessage_blank)
  next
    case False
    from sendMessage_eq [OF this assms] show ?thesis using False by simp
  qed
  show "length (wire (snd (sendMessage w))) =
           length (wire w) +
             (if trim (messageInput w) \<noteq> [] then length (usableSessions w) else 0)"
  proof (cases "trim (messageInput w) = []")
    case True
    then show ?thesis by (simp add: sendMessage_blank)
  next
    case False
    from sendMessage_eq [OF this assms] show ?thesis using False by simp
  qed
qed

lemma congested_fields [simp]:
  "username congested = ''alice''" "messageInput congested = '' hi ''"
  "peers congested =
     [(''p1'', (session ''p1'' 0)\<lparr>dataChannel := Some 0, connected := True\<rparr>),
      (''p2'', (session ''p2'' 1)\<lparr>dataChannel := Some 1, connected := True\<rparr>)]"
  "readyState (channels congested 0) = Open"
  "readyState (channels congested (Suc 0)) = Open"
  "refusal congested 0 text = None"
  "refusal congested (Suc 0) text = Some OperationError"
  "wire congested = []" "messages congested = []"
  by (simp_all add: congested_def)

text \<open>
  C9. Both peers have an open channel, and the buffer of \<^verbatim>\<open>p2\<close> is full. The message is
  transmitted to \<^verbatim>\<open>p1\<close>; \<^verbatim>\<open>send\<close> raises on the channel of \<^verbatim>\<open>p2\<close> and the exception
  leaves \<^verbatim>\<open>sendMessage\<close> before the test of \<^verbatim>\<open>sentCount\<close>: one transmission succeeded
  and the input is not reset.
\<close>

theorem sendMessage_partial:
  "fst (sendMessage congested) = Some OperationError
   \<and> wire (snd (sendMessage congested)) =
       [(0, JSON_stringify (Object [(''sender'', Text ''alice''), (''content'', Text ''hi'')]))]
   \<and> messageInput (snd (sendMessage congested)) = '' hi ''
   \<and> messages (snd (sendMessage congested)) = []"
  by (simp add: sendMessage_def session_def send_def messageData_def)

section \<open>Receiving a message\<close>





section \<open>Joining a room\<close>

lemma joinRoom_blank:
  "trim (username w) = [] \<or> trim (roomId w) = [] \<Longrightarrow>
     joinRoom w = diagnostic (CROSS_MARK @ '' Please enter both username and room ID'') w"
  by (auto simp add: joinRoom_def)

lemma joinRoom_unsuccessful:
  assumes "trim (username w) \<noteq> []" "trim (roomId w) \<noteq> []"
    and "shd (replies w) = Resolved r" "\<not> success r"
  shows "messages (joinRoom w) = messages w @ [\<lparr>id_m = (now w, shd (mathRandom w)),
           sender = JString ''System'',
           content = JString (ARROWS @ '' Joining room '' @ roomId w @ ''...''),
           timestamp = now w, isOwn = False\<rparr>]"
    and "isConnecting (joinRoom w)"
    and "isInRoom (joinRoom w) = isInRoom w"
    and "intervals (joinRoom w) = intervals w"
    and "peers (joinRoom w) = peers w"
    and "requests (joinRoom w) = requests w @ [(JoinRoomSignal, roomId w, myPeerId w)]"
  using assms
  by (simp_all add: joinRoom_def Let_def split_def sendToSignalingServer_log)

lemma connectPeers_distinct:
  "distinct (map fst (peers w)) \<Longrightarrow> distinct (map fst (peers (connectPeers ps w)))"
proof (induction ps arbitrary: w)
  case Nil
  then show ?case by simp
next
  case (Cons p ps)
  show ?case
    by (simp add: split_def Let_def, rule Cons.IH) (simp add: distinct_update Cons.prems)
qed

lemma joinRoom_distinct:
  assumes "distinct (map fst (peers w))"
  shows "distinct (map fst (peers (joinRoom w)))"
  using assms
  by (simp add: joinRoom_def Let_def split_def connectPeers_distinct split: option.splits)

lemma waiting_fields:
  "peers waiting = [(''p1'', session ''p1'' 0)]"
  "timeouts waiting = [(30000, 0, ''p1'')]"
  "connectionState (connections waiting 0) = New"
  "isInRoom waiting"
  "connectionCount waiting = 1"
  "intervals waiting = [(0, 2000, [])]"
  "pollingRef waiting = Some 0"
  by (simp_all add: waiting_def joining_def joinRoom_def Let_def split_def)

text \<open>
  C6. \<^verbatim>\<open>joinRoom\<close> with a user name or a room identifier that is empty after trimming
  makes no request, transmits nothing, enters no room, creates no session and no timer,
  and appends one System diagnostic. \<^verbatim>\<open>sendMessage\<close> with a text that is empty after
  trimming returns and changes nothing at all.
\<close>

theorem blank_input_rejected:
  "(trim (username w) = [] \<or> trim (roomId w) = [] \<longrightarrow>
      requests (joinRoom w) = requests w
      \<and> wire (joinRoom w) = wire w
      \<and> isInRoom (joinRoom w) = isInRoom w
      \<and> peers (joinRoom w) = peers w
      \<and> intervals (joinRoom w) = intervals w
      \<and> messages (joinRoom w) =
          messages w @ [\<lparr>id_m = (now w, shd (mathRandom w)), sender = JString ''System'',
            content = JString (CROSS_MARK @ '' Please enter both username and room ID''),
            timestamp = now w, isOwn = False\<rparr>])
   \<and> (trim (messageInput w) = [] \<longrightarrow> sendMessage w = (None, w))"
  by (auto simp add: joinRoom_blank sendMessage_blank)

theorem blank_input_rejected_witness:
  "trim (username nameless) = []
   \<and> requests (joinRoom nameless) = []
   \<and> \<not> isInRoom (joinRoom nameless)
   \<and> messages (joinRoom nameless) =
       [\<lparr>id_m = (0, 0), sender = JString ''System'',
         content = JString (CROSS_MARK @ '' Please enter both username and room ID''),
         timestamp = 0, isOwn = False\<rparr>]
   \<and> trim (messageInput typing_blank) = []
   \<and> sendMessage typing_blank = (None, typing_blank)"
proof -
  have n: "trim (username nameless) = []"
    by (simp add: nameless_def trim_def isWhiteSpace_def)
  have t: "trim (messageInput typing_blank) = []"
    by (simp add: typing_blank_def)
  have f: "requests nameless = []" "isInRoom nameless = False" "messages nameless = []"
    "now nameless = 0" "shd (mathRandom nameless) = 0"
    by (simp_all add: nameless_def initial_def)
  show ?thesis
    using blank_input_rejected [of nameless] blank_input_rejected [of typing_blank] n t
    by (simp add: f)
qed

text \<open>
  With an empty draft \<^verbatim>\<open>sendMessage\<close> reports nothing, neither in the message log nor on
  the console.
\<close>

theorem sendMessage_silent_counterexample:
  "trim (messageInput empty_draft) = []
   \<and> fst (sendMessage empty_draft) = None
   \<and> messages (snd (sendMessage empty_draft)) = messages empty_draft
   \<and> console (snd (sendMessage empty_draft)) = console empty_draft"
proof -
  have "trim (messageInput empty_draft) = []"
    by (simp add: empty_draft_def trim_def)
  then show ?thesis by (simp add: sendMessage_blank)
qed

text \<open>
  C7. A join that the server answers with \<^verbatim>\<open>success: false\<close>: the room is not entered,
  no timer and no session is created; the log holds only the progress message written
  before the request, and \<^verbatim>\<open>isConnecting\<close> stays set.
\<close>

theorem joinRoom_rejected_silent:
  "messages (joinRoom rejected) =
     [\<lparr>id_m = (0, 0), sender = JString ''System'',
       content = JString (ARROWS @ '' Joining room ABC123...''), timestamp = 0,
       isOwn = False\<rparr>]
   \<and> isConnecting (joinRoom rejected)
   \<and> \<not> isInRoom (joinRoom rejected)
   \<and> intervals (joinRoom rejected) = []
   \<and> peers (joinRoom rejected) = []"
proof -
  have r: "shd (replies rejected) = Resolved (JoinResponse False (Some []))"
    by (simp add: rejected_def)
  have u: "trim (username rejected) \<noteq> []" "trim (roomId rejected) \<noteq> []"
    by (simp_all add: rejected_def)
  have f: "messages rejected = []" "now rejected = 0" "shd (mathRandom rejected) = 0"
    "roomId rejected = ''ABC123''" "isInRoom rejected = False" "intervals rejected = []"
    "peers rejected = []"
    by (simp_all add: rejected_def)
  show ?thesis
    using joinRoom_unsuccessful [OF u r] by (simp add: f)
qed

section \<open>Polling\<close>

lemma offerBlock_result:
  "fst (offerBlock r w) =
     (case offer_of r of
        None \<Rightarrow> None
      | Some (frm, off) \<Rightarrow> if off = InvalidDescription then Some OperationError else None)"
  "peers (snd (offerBlock r w)) =
     (case offer_of r of
        None \<Rightarrow> peers w
      | Some (frm, off) \<Rightarrow>
          if off = InvalidDescription then peers w
          else AList.update frm (session frm (connectionCount w)) (peers w))"
  by (simp_all add: offerBlock_def Let_def split_def setRemoteDescription_def
        setLocalDescription_def split: option.splits)

lemma answerBlock_peers [simp]: "peers (snd (answerBlock c r w)) = peers w"
  by (simp add: answerBlock_def Let_def setRemoteDescription_def split: option.splits)

lemma addCandidates_peers [simp]: "peers (snd (addCandidates c cs w)) = peers w"
  by (induction c cs w rule: addCandidates.induct)
     (simp_all add: addIceCandidate_def split: option.splits)

lemma candidatesBlock_peers [simp]: "peers (snd (candidatesBlock c r w)) = peers w"
  by (simp add: candidatesBlock_def split: option.splits)

text \<open>Only the first block of a poll writes to the sessions.\<close>

lemma pollSignalingServer_peers:
  "peers (pollSignalingServer c w) =
     peers (snd (offerBlock (fst (sendToSignalingServer PollSignal w))
                   (snd (sendToSignalingServer PollSignal w))))"
proof -
  obtain r w1 where s: "sendToSignalingServer PollSignal w = (r, w1)" by (cases "sendToSignalingServer PollSignal w")
  obtain e2 w2 where o: "offerBlock r w1 = (e2, w2)" by (cases "offerBlock r w1")
  obtain e3 w3 where a: "answerBlock c r w2 = (e3, w3)" by (cases "answerBlock c r w2")
  obtain e4 w4 where k: "candidatesBlock c r w3 = (e4, w4)" by (cases "candidatesBlock c r w3")
  have "peers w3 = peers w2" using answerBlock_peers [of c r w2] a by simp
  moreover have "peers w4 = peers w3" using candidatesBlock_peers [of c r w3] k by simp
  ultimately show ?thesis
    unfolding pollSignalingServer_def s using o a k by (simp split: option.splits)
qed

lemma pollSignalingServer_distinct:
  assumes "distinct (map fst (peers w))"
  shows "distinct (map fst (peers (pollSignalingServer c w)))"
  using assms
  by (simp add: pollSignalingServer_peers offerBlock_result distinct_update split: option.splits)

lemma discoveries_distinct:
  "distinct (map fst (peers w)) \<Longrightarrow> distinct (map fst (peers (discoveries es w)))"
  unfolding discoveries_def
proof (induction es arbitrary: w)
  case Nil
  then show ?case by simp
next
  case (Cons e es)
  have "distinct (map fst (peers (discover w e)))"
    using Cons.prems by (cases e) (simp_all add: joinRoom_distinct pollSignalingServer_distinct)
  then show ?case using Cons.IH by simp
qed

lemma pollSignalingServer_offer:
  assumes "shd (replies w) = Resolved (PollResponse (Some (frm, off)) ans cands)"
    and "off \<noteq> InvalidDescription"
  shows "map_of (peers (pollSignalingServer c w)) frm = Some (session frm (connectionCount w))"
  using assms
  by (simp add: pollSignalingServer_peers offerBlock_result update_conv')

text \<open>
  C2. For every state and every sequence of discovery events, the sessions are held under
  distinct peer identifiers. An offer in a poll reply, with a description the browser
  accepts, always creates a new connection and stores a new session for it under the peer
  identifier it came from, whether or not a session was stored there before.
\<close>

theorem one_session_per_peer:
  "(distinct (map fst (peers w)) \<longrightarrow> distinct (map fst (peers (discoveries es w))))
   \<and> (shd (replies v) = Resolved (PollResponse (Some (frm, off)) ans cands)
        \<and> off \<noteq> InvalidDescription \<longrightarrow>
      map_of (peers (pollSignalingServer closure v)) frm =
        Some (session frm (connectionCount v)))"
  by (simp add: discoveries_distinct pollSignalingServer_offer)

theorem one_session_per_peer_witness:
  "distinct (map fst (peers joining))
   \<and> distinct (map fst (peers (discoveries [Join, Poll [], Poll []] joining)))
   \<and> shd (replies newcomer) =
       Resolved (PollResponse (Some (''p3'', SessionDescription offer 5)) None None)
   \<and> map_of (peers (pollSignalingServer [] newcomer)) ''p3'' = Some (session ''p3'' 2)"
proof -
  have d: "distinct (map fst (peers joining))" by (simp add: joining_def)
  have r: "shd (replies newcomer) =
       Resolved (PollResponse (Some (''p3'', SessionDescription offer 5)) None None)"
    by (simp add: newcomer_def)
  have c: "connectionCount newcomer = 2" by (simp add: newcomer_def)
  show ?thesis
    using one_session_per_peer [where w = joining and es = "[Join, Poll [], Poll []]"
        and v = newcomer and frm = "''p3''" and off = "SessionDescription offer 5"
        and ans = None and cands = None and closure = "[]"] d r c
    by simp
qed

text \<open>
  \<^verbatim>\<open>p1\<close> has a session whose connection is new; a second offer from \<^verbatim>\<open>p1\<close> is not
  ignored: the session is replaced by one on another connection.
\<close>

theorem second_offer_counterexample:
  "map_of (peers reoffered) ''p1'' = Some (session ''p1'' 0)
   \<and> connectionState (connections reoffered 0) = New
   \<and> map_of (peers (pollSignalingServer [] reoffered)) ''p1'' = Some (session ''p1'' 1)
   \<and> session ''p1'' 1 \<noteq> session ''p1'' 0"
proof -
  have r: "shd (replies reoffered) =
       Resolved (PollResponse (Some (''p1'', SessionDescription offer 9)) None None)"
    by (simp add: reoffered_def)
  have f: "peers reoffered = peers waiting" "connections reoffered = connections waiting"
    "connectionCount reoffered = connectionCount waiting"
    by (simp_all add: reoffered_def)
  show ?thesis
    using pollSignalingServer_offer [OF r, of "[]"]
    by (simp add: f waiting_fields session_def)
qed















lemma polled_head [simp]: "polled (w\<lparr>replies := x ## stl (replies w)\<rparr>) = polled w"
  by (simp add: polled_def)








section \<open>The connection timeout\<close>

lemma updateConnectionStatus_fields [simp]:
  "timeouts (updateConnectionStatus c w) = timeouts w"
  "peers (updateConnectionStatus c w) = peers w"
  "connections (updateConnectionStatus c w) = connections w"
  "messages (updateConnectionStatus c w) = messages w"
  "now (updateConnectionStatus c w) = now w"
  "mathRandom (updateConnectionStatus c w) = mathRandom w"
  by (simp_all add: updateConnectionStatus_def Let_def)

lemma onconnectionstatechange_fields [simp]:
  "timeouts (onconnectionstatechange pc t c w) = timeouts w"
  "connections (onconnectionstatechange pc t c w) = connections w"
  "now (onconnectionstatechange pc t c w) = now w"
  "peers (onconnectionstatechange pc t c w) =
     (if connectionState (connections w pc) = Connected then
        (case map_of (peers w) t of
           Some peer \<Rightarrow> AList.update t (peer\<lparr>connected := True\<rparr>) (peers w)
         | None \<Rightarrow> peers w)
      else if connectionState (connections w pc) = Disconnected
              \<or> connectionState (connections w pc) = Failed then
        AList.delete t (peers w)
      else peers w)"
  by (simp_all add: onconnectionstatechange_def Let_def split: option.splits)

lemma handler_timeouts [simp]:
  "timeouts (onopen dc p w) = timeouts w"
  "timeouts (onerror p e w) = timeouts w"
  "timeouts (onicecandidate t c w) = timeouts w"
  "timeouts (oniceconnectionstatechange pc t w) = timeouts w"
  "timeouts (ondatachannel t dc w) = timeouts w"
  "timeouts (unmount w) = timeouts w"
  "timeouts (connectionTimeout pc t w) = timeouts w"
  by (simp_all add: onopen_def onerror_def onicecandidate_def oniceconnectionstatechange_def
        ondatachannel_def setupDataChannel_def unmount_def connectionTimeout_def
        Let_def split: option.splits)

lemma sendMessage_timeouts [simp]: "timeouts (snd (sendMessage w)) = timeouts w"
proof -
  obtain e n w1 where s:
    "sendAll (JSON_stringify (messageData w)) (map snd (peers w)) (0, w) = (e, n, w1)"
    by (cases "sendAll (JSON_stringify (messageData w)) (map snd (peers w)) (0, w)")
  have "timeouts w1 = timeouts w"
    using sendAll_frame(1) [of "JSON_stringify (messageData w)" "map snd (peers w)" 0 w] s
    by simp
  then show ?thesis by (cases e) (simp_all add: sendMessage_def s)
qed

lemma onmessage_timeouts: "onmessage d w = Inr w1 \<Longrightarrow> timeouts w1 = timeouts w"
  by (auto simp add: onmessage_def split: sum.splits)

lemma offerBlock_timeouts: "prefix (timeouts w) (timeouts (snd (offerBlock r w)))"
  by (simp add: offerBlock_def Let_def split_def setRemoteDescription_def setLocalDescription_def
        split: option.splits)

lemma answerBlock_timeouts [simp]: "timeouts (snd (answerBlock c r w)) = timeouts w"
  by (simp add: answerBlock_def Let_def setRemoteDescription_def split: option.splits)

lemma addCandidates_timeouts [simp]: "timeouts (snd (addCandidates c cs w)) = timeouts w"
  by (induction c cs w rule: addCandidates.induct)
     (simp_all add: addIceCandidate_def split: option.splits)

lemma candidatesBlock_timeouts [simp]: "timeouts (snd (candidatesBlock c r w)) = timeouts w"
  by (simp add: candidatesBlock_def split: option.splits)

lemma pollSignalingServer_timeouts:
  "prefix (timeouts w) (timeouts (pollSignalingServer c w))"
proof -
  obtain r w1 where s: "sendToSignalingServer PollSignal w = (r, w1)"
    by (cases "sendToSignalingServer PollSignal w")
  obtain e2 w2 where o: "offerBlock r w1 = (e2, w2)" by (cases "offerBlock r w1")
  obtain e3 w3 where a: "answerBlock c r w2 = (e3, w3)" by (cases "answerBlock c r w2")
  obtain e4 w4 where k: "candidatesBlock c r w3 = (e4, w4)" by (cases "candidatesBlock c r w3")
  have "timeouts w1 = timeouts w" using sendToSignalingServer_fields(7) [of PollSignal w] s by simp
  moreover have "prefix (timeouts w1) (timeouts w2)" using offerBlock_timeouts [of w1 r] o by simp
  moreover have "timeouts w3 = timeouts w2" using answerBlock_timeouts [of c r w2] a by simp
  moreover have "timeouts w4 = timeouts w3" using candidatesBlock_timeouts [of c r w3] k by simp
  ultimately show ?thesis
    unfolding pollSignalingServer_def s using o a k by (simp split: option.splits)
qed

lemma connectPeers_timeouts: "prefix (timeouts w) (timeouts (connectPeers ps w))"
proof (induction ps arbitrary: w)
  case Nil
  then show ?case by simp
next
  case (Cons p ps)
  let ?w1 = "(snd (createPeerConnection p True w))
      \<lparr>peers := AList.update p (session p (connectionCount w))
                  (peers (snd (createPeerConnection p True w)))\<rparr>"
  have "prefix (timeouts w) (timeouts ?w1)" by simp
  also have "prefix (timeouts ?w1) (timeouts (connectPeers ps ?w1))" by (rule Cons.IH)
  finally show ?case by (simp add: split_def Let_def)
qed

lemma joinRoom_timeouts: "prefix (timeouts w) (timeouts (joinRoom w))"
proof -
  have "prefix (timeouts w) (timeouts (connectPeers ps v))" if "timeouts v = timeouts w" for ps v
    using connectPeers_timeouts [of v ps] that by simp
  then show ?thesis
    by (simp add: joinRoom_def Let_def split_def setInterval_def split: option.splits)
qed

lemma handle_timeouts: "prefix (timeouts w) (timeouts (handle e w))"
  by (cases e)
     (simp_all add: joinRoom_timeouts pollSignalingServer_timeouts leaveRoom_fields
        onmessage_timeouts split: sum.splits)

lemma run_timeouts: "prefix (timeouts w) (timeouts (run es w))"
  unfolding run_def
proof (induction es arbitrary: w)
  case Nil
  then show ?case by simp
next
  case (Cons e es)
  have "prefix (timeouts w) (timeouts (handle e w))" by (rule handle_timeouts)
  also have "prefix (timeouts (handle e w)) (timeouts (foldl (\<lambda>a e. handle e a) (handle e w) es))"
    by (rule Cons.IH)
  finally show ?case by simp
qed

text \<open>
  C4. Creating a connection schedules one callback, due 30000 ms later, and no handler
  takes a scheduled callback away: after any sequence of events the timeouts that were
  pending are still pending, whether the connection was reported connected or the room
  was left. When the callback runs and the connection's state is not \<^verbatim>\<open>connected\<close>, it
  appends a System diagnostic and clears \<^verbatim>\<open>isConnecting\<close>; when the state is
  \<^verbatim>\<open>connected\<close> it does nothing. In both cases the sessions, the connections and the
  pending timeouts stay as they were.
\<close>

theorem connectionTimeout_effect:
  "timeouts (snd (createPeerConnection targetPeerId isInitiator w)) =
     timeouts w @ [(now w + 30000, connectionCount w, targetPeerId)]
   \<and> prefix (timeouts w) (timeouts (run es w))
   \<and> timeouts (leaveRoom w) = timeouts w
   \<and> timeouts (onconnectionstatechange pc targetPeerId closure w) = timeouts w
   \<and> peers (connectionTimeout pc targetPeerId w) = peers w
   \<and> connections (connectionTimeout pc targetPeerId w) = connections w
   \<and> timeouts (connectionTimeout pc targetPeerId w) = timeouts w
   \<and> messages (connectionTimeout pc targetPeerId w) =
       messages w @
         (if connectionState (connections w pc) = Connected then []
          else [\<lparr>id_m = (now w, shd (mathRandom w)), sender = JString ''System'',
                  content = JString (ALARM_CLOCK @ '' Connection timeout with ''
                    @ substring 0 6 targetPeerId
                    @ ''. The peer might be offline or behind a restrictive firewall.''),
                  timestamp = now w, isOwn = False\<rparr>])
   \<and> isConnecting (connectionTimeout pc targetPeerId w) =
       (connectionState (connections w pc) = Connected \<and> isConnecting w)"
  by (simp add: connectionTimeout_def leaveRoom_fields run_timeouts)

theorem connectionTimeout_effect_witness:
  "prefix [(30000, 0, ''p1'')]
     (timeouts (run [StateChanged 0 ''p1'' [], SendClicked, LeaveClicked, JoinClicked,
                     TimeoutDue 0 ''p1''] waiting))"
  using connectionTimeout_effect [of "''p1''" True waiting
      "[StateChanged 0 ''p1'' [], SendClicked, LeaveClicked, JoinClicked, TimeoutDue 0 ''p1'']"]
  by (simp add: waiting_fields)

lemma timeout_scenario:
  "peers linked = [(''p1'', (session ''p1'' 0)\<lparr>connected := True\<rparr>)]"
  "timeouts linked = [(30000, 0, ''p1'')]"
  "peers unlinked = []"
  "timeouts unlinked = [(30000, 0, ''p1'')]"
  "connectionState (connections unlinked 0) = Disconnected"
  "timeouts departed = [(30000, 0, ''p1'')]"
  "connectionState (connections departed 0) = Closed"
  by (simp_all add: linked_def unlinked_def departed_def waiting_fields leaveRoom_fields
        session_def)

text \<open>
  The session of \<^verbatim>\<open>p1\<close> never connected. After its timeout ran, the session is still
  stored and its connection is still new, not failed; nothing was scheduled. When the
  connection is reported connected the timeout stays pending, and once the connection was
  lost again it reports a timeout for a session that had been connected. After the room
  was left and the connection closed the timeout is still pending, and it reports too.
\<close>

theorem connectionTimeout_counterexample:
  "timeouts waiting = [(30000, 0, ''p1'')]
   \<and> connectionState (connections waiting 0) = New
   \<and> map_of (peers expired) ''p1'' = Some (session ''p1'' 0)
   \<and> connectionState (connections expired 0) = New
   \<and> timeouts expired = timeouts waiting
   \<and> peers linked = [(''p1'', (session ''p1'' 0)\<lparr>connected := True\<rparr>)]
   \<and> timeouts linked = [(30000, 0, ''p1'')]
   \<and> timeouts unlinked = [(30000, 0, ''p1'')]
   \<and> messages (connectionTimeout 0 ''p1'' unlinked) =
       messages unlinked @
         [\<lparr>id_m = (now unlinked, shd (mathRandom unlinked)), sender = JString ''System'',
           content = JString (ALARM_CLOCK @ '' Connection timeout with p1''
             @ ''. The peer might be offline or behind a restrictive firewall.''),
           timestamp = now unlinked, isOwn = False\<rparr>]
   \<and> connectionState (connections departed 0) = Closed
   \<and> timeouts departed = [(30000, 0, ''p1'')]
   \<and> messages (connectionTimeout 0 ''p1'' departed) =
       messages departed @
         [\<lparr>id_m = (now departed, shd (mathRandom departed)), sender = JString ''System'',
           content = JString (ALARM_CLOCK @ '' Connection timeout with p1''
             @ ''. The peer might be offline or behind a restrictive firewall.''),
           timestamp = now departed, isOwn = False\<rparr>]"
  by (simp add: expired_def connectionTimeout_def waiting_fields timeout_scenario
        substring_def)

section \<open>Leaving a room\<close>

text \<open>
  C5. For every state in which \<^verbatim>\<open>leaveRoom\<close> is called: the interval that \<^verbatim>\<open>pollingRef\<close>
  holds is cleared, the connection of every session is closed, whatever its state was,
  the session collection is empty, the number of connected peers is zero, the status is
  \<^verbatim>\<open>Disconnected\<close> and the room is left.
\<close>

theorem leaveRoom_teardown:
  "intervals (leaveRoom w) = filter (\<lambda>i. Some (fst i) \<noteq> pollingRef w) (intervals w)
   \<and> (\<forall>peer \<in> set (map snd (peers w)).
         connectionState (connections (leaveRoom w) (connection peer)) = Closed)
   \<and> peers (leaveRoom w) = []
   \<and> connectedPeers (leaveRoom w) = 0
   \<and> connectionStatus (leaveRoom w) = ''Disconnected''
   \<and> \<not> isInRoom (leaveRoom w)"
  by (simp add: leaveRoom_fields connectedPeers_def)

theorem leaveRoom_teardown_witness:
  "connectionState (connections chatting 0) = Connected
   \<and> connectionState (connections chatting 1) = Failed
   \<and> connectionState (connections (leaveRoom chatting) 0) = Closed
   \<and> connectionState (connections (leaveRoom chatting) 1) = Closed
   \<and> peers (leaveRoom chatting) = []"
  using leaveRoom_teardown [of chatting] by (simp add: session_def)

text \<open>
  C10. \<^verbatim>\<open>leaveRoom\<close> appends one System message to the log and changes nothing before
  it; the user name, the room identifier and the local peer identifier stay as they were.
\<close>

theorem leaveRoom_log:
  "messages (leaveRoom w) = messages w @ [\<lparr>id_m = (now w, shd (mathRandom w)),
     sender = JString ''System'', content = JString (WAVING_HAND @ '' Left the room''),
     timestamp = now w, isOwn = False\<rparr>]
   \<and> username (leaveRoom w) = username w
   \<and> roomId (leaveRoom w) = roomId w
   \<and> myPeerId (leaveRoom w) = myPeerId w"
  by (simp add: leaveRoom_fields)

end
